theory Spec2Isabelle
  imports Complex_Main
begin

section \<open>Python string primitives used by nwgeom\_out2xyz.py\<close>

text \<open>
  Strings are lists of characters. The characters for which Python's
  \<^verbatim>\<open>str.isspace\<close> holds, among the codes below 256, are the codes
  9 to 13, 28 to 32, 133 and 160.
\<close>

definition is_space :: "char \<Rightarrow> bool" where
  "is_space c = (of_char c \<in> {9, 10, 11, 12, 13, 28, 29, 30, 31, 32, 133, 160 :: nat})"

text \<open>
  \<^verbatim>\<open>s.split()\<close> with no separator: the maximal runs of non-whitespace
  characters, in order. The first argument is the token being collected.
\<close>

fun split_ws :: "string \<Rightarrow> string \<Rightarrow> string list" where
  "split_ws cur [] = (if cur = [] then [] else [cur])"
| "split_ws cur (c # cs) =
     (if is_space c then (if cur = [] then split_ws [] cs else cur # split_ws [] cs)
      else split_ws (cur @ [c]) cs)"

definition py_split :: "string \<Rightarrow> string list" where
  "py_split s = split_ws [] s"

text \<open>\<^verbatim>\<open>s.strip()\<close>: whitespace removed at both ends.\<close>

definition py_strip :: "string \<Rightarrow> string" where
  "py_strip s = rev (dropWhile is_space (rev (dropWhile is_space s)))"

text \<open>\<^verbatim>\<open>s.startswith(p)\<close>.\<close>

definition startswith :: "string \<Rightarrow> string \<Rightarrow> bool" where
  "startswith s p = (take (length p) s = p)"

text \<open>
  \<^verbatim>\<open>s.split(sep)\<close> for a one-character separator: the pieces between the
  separators, empty pieces kept, so the result is never empty.
\<close>

fun split_sep :: "char \<Rightarrow> string \<Rightarrow> string \<Rightarrow> string list" where
  "split_sep sep cur [] = [cur]"
| "split_sep sep cur (c # cs) =
     (if c = sep then cur # split_sep sep [] cs else split_sep sep (cur @ [c]) cs)"

definition split_on :: "char \<Rightarrow> string \<Rightarrow> string list" where
  "split_on sep s = split_sep sep [] s"

section \<open>get\_basename\<close>

text \<open>
  \<^verbatim>\<open>path = filename.split("/"); basename = path[-1].split("."); return basename[0]\<close>.
  Both lists are non-empty, so neither index raises.
\<close>

definition get_basename :: "string \<Rightarrow> string" where
  "get_basename filename =
     (let path = split_on (CHR ''/'') filename;
          basename = split_on (CHR ''.'') (last path)
      in hd basename)"

section \<open>Python floats\<close>

text \<open>
  A Python float is an IEEE 754 binary64 value: a sign with a magnitude (zero is signed),
  an infinity, or a NaN. The magnitude of a finite value is kept as the rational it
  denotes, so that equality of finite values is equality of what they denote.
\<close>

datatype pyfloat = Fin bool rat | Infty bool | NaN

definition pow_int :: "rat \<Rightarrow> int \<Rightarrow> rat" where
  "pow_int b e = (if 0 \<le> e then b ^ nat e else 1 / b ^ nat (- e))"

text \<open>The number of digits of \<open>n\<close> in base \<open>b\<close>.\<close>

fun ndigits :: "nat \<Rightarrow> nat \<Rightarrow> nat" where
  "ndigits b n = (if b < 2 \<or> n = 0 then 0 else Suc (ndigits b (n div b)))"

declare ndigits.simps [simp del]

text \<open>
  For a positive \<open>q\<close>, the exponent \<open>e\<close> with \<open>b ^ e \<le> q < b ^ (e + 1)\<close>: one
  less than the number of digits of the integer part of \<open>q\<close> when \<open>1 \<le> q\<close>, and
  otherwise the least \<open>k\<close> with \<open>1 / q \<le> b ^ k\<close>, negated.
\<close>

definition ilog :: "nat \<Rightarrow> rat \<Rightarrow> int" where
  "ilog b q =
     (if 1 \<le> q then int (ndigits b (nat \<lfloor>q\<rfloor>)) - 1
      else - int (ndigits b (nat (\<lceil>1 / q\<rceil> - 1))))"

text \<open>Rounding a non-negative rational to the nearest integer, ties to even.\<close>

definition rne :: "rat \<Rightarrow> int" where
  "rne q =
     (let f = \<lfloor>q\<rfloor>; r = q - of_int f
      in if r < 1 / 2 then f
         else if 1 / 2 < r then f + 1
         else if even f then f else f + 1)"

text \<open>
  Rounding a magnitude to binary64 (round to nearest, ties to even): 53 significant
  bits, exponent at least \<open>-1022\<close> (subnormals below), infinity from \<open>2 ^ 1024\<close> on.
\<close>

definition round_double :: "bool \<Rightarrow> rat \<Rightarrow> pyfloat" where
  "round_double s q =
     (if q = 0 then Fin s 0
      else let e = max (ilog 2 q) (- 1022);
               u = pow_int 2 (e - 52);
               v = of_int (rne (q / u)) * u
           in if pow_int 2 1024 \<le> v then Infty s else Fin s v)"

text \<open>\<^verbatim>\<open>a * b\<close> on floats.\<close>

fun fmul :: "pyfloat \<Rightarrow> pyfloat \<Rightarrow> pyfloat" where
  "fmul (Fin s p) (Fin t q) = round_double (s \<noteq> t) (p * q)"
| "fmul (Fin s p) (Infty t) = (if p = 0 then NaN else Infty (s \<noteq> t))"
| "fmul (Infty s) (Fin t q) = (if q = 0 then NaN else Infty (s \<noteq> t))"
| "fmul (Infty s) (Infty t) = Infty (s \<noteq> t)"
| "fmul NaN _ = NaN"
| "fmul _ NaN = NaN"

text \<open>\<^verbatim>\<open>a / b\<close> on floats; \<open>None\<close> is ZeroDivisionError.\<close>

fun fdiv :: "pyfloat \<Rightarrow> pyfloat \<Rightarrow> pyfloat option" where
  "fdiv (Fin s p) (Fin t q) = (if q = 0 then None else Some (round_double (s \<noteq> t) (p / q)))"
| "fdiv (Infty s) (Fin t q) = (if q = 0 then None else Some (Infty (s \<noteq> t)))"
| "fdiv NaN (Fin t q) = (if q = 0 then None else Some NaN)"
| "fdiv (Fin s p) (Infty t) = Some (Fin (s \<noteq> t) 0)"
| "fdiv (Infty s) (Infty t) = Some NaN"
| "fdiv NaN (Infty t) = Some NaN"
| "fdiv _ NaN = Some NaN"

subsection \<open>float(str)\<close>

definition is_digit :: "char \<Rightarrow> bool" where
  "is_digit c = (48 \<le> (of_char c :: nat) \<and> (of_char c :: nat) \<le> 57)"

definition digits_val :: "string \<Rightarrow> nat" where
  "digits_val ds = foldl (\<lambda>a c. 10 * a + (of_char c - 48)) 0 ds"

text \<open>
  An underscore is accepted between two digits only, and is dropped. The first
  argument is the previous character.
\<close>

fun drop_underscores :: "char \<Rightarrow> string \<Rightarrow> string option" where
  "drop_underscores prev [] = (if prev = CHR ''_'' then None else Some [])"
| "drop_underscores prev (c # cs) =
     (if c = CHR ''_'' then (if is_digit prev then drop_underscores c cs else None)
      else if prev = CHR ''_'' \<and> \<not> is_digit c then None
      else map_option ((#) c) (drop_underscores c cs))"

definition lower :: "char \<Rightarrow> char" where
  "lower c =
     (case map_of (zip ''ABCDEFGHIJKLMNOPQRSTUVWXYZ'' ''abcdefghijklmnopqrstuvwxyz'') c of
        None \<Rightarrow> c
      | Some l \<Rightarrow> l)"

text \<open>The exponent part: nothing, or \<open>e\<close> or \<open>E\<close>, an optional sign and digits.\<close>

definition parse_exponent :: "string \<Rightarrow> int option" where
  "parse_exponent r =
     (case r of
        [] \<Rightarrow> Some 0
      | c # t \<Rightarrow>
          if lower c = CHR ''e'' then
            (let (neg, d) = (case t of
                               [] \<Rightarrow> (False, [])
                             | x # d' \<Rightarrow> if x = CHR ''-'' then (True, d')
                                         else if x = CHR ''+'' then (False, d')
                                         else (False, t))
             in if d \<noteq> [] \<and> list_all is_digit d
                then Some (if neg then - int (digits_val d) else int (digits_val d))
                else None)
          else None)"

text \<open>
  A decimal number: digits, an optional point and digits, at least one digit in all,
  and the exponent part; its exact value.
\<close>

definition parse_number :: "string \<Rightarrow> rat option" where
  "parse_number s =
     (let ip = takeWhile is_digit s; r1 = dropWhile is_digit s;
          (fp, r2) = (case r1 of
                        [] \<Rightarrow> ([], [])
                      | c # t \<Rightarrow> if c = CHR ''.'' then (takeWhile is_digit t, dropWhile is_digit t)
                                 else ([], r1))
      in if ip = [] \<and> fp = [] then None
         else (case parse_exponent r2 of
                 None \<Rightarrow> None
               | Some e \<Rightarrow> Some (of_nat (digits_val (ip @ fp)) * pow_int 10 (e - int (length fp)))))"

definition py_float_unsigned :: "bool \<Rightarrow> string \<Rightarrow> pyfloat option" where
  "py_float_unsigned s body =
     (case parse_number body of
        Some q \<Rightarrow> Some (round_double s q)
      | None \<Rightarrow>
          if map lower body = ''inf'' \<or> map lower body = ''infinity'' then Some (Infty s)
          else if map lower body = ''nan'' then Some NaN
          else None)"

text \<open>
  \<^verbatim>\<open>float(str)\<close>; \<open>None\<close> is ValueError. Whitespace around the number is
  ignored, as Python does (a token of \<^verbatim>\<open>split()\<close> has none).
\<close>

definition py_float :: "string \<Rightarrow> pyfloat option" where
  "py_float str =
     (case drop_underscores (CHR 0x00) (py_strip str) of
        None \<Rightarrow> None
      | Some s \<Rightarrow>
          (case s of
             [] \<Rightarrow> None
           | c # t \<Rightarrow> if c = CHR ''-'' then py_float_unsigned True t
                      else if c = CHR ''+'' then py_float_unsigned False t
                      else py_float_unsigned False s))"

subsection \<open>str(int) and repr(float)\<close>

definition digit_char :: "nat \<Rightarrow> char" where
  "digit_char d = ''0123456789'' ! d"

fun str_nat :: "nat \<Rightarrow> string" where
  "str_nat n = (if n < 10 then [digit_char n] else str_nat (n div 10) @ [digit_char (n mod 10)])"

declare str_nat.simps [simp del]

text \<open>
  The shortest decimal that rounds back to the float, nearest to it when there are
  several: digit counts from \<open>n\<close> up, the 17th always rounds back. The result is the
  digits as a number, and their count. \<open>k\<close> is the decimal exponent of \<open>q\<close>:
  \<open>10 ^ (k - 1) \<le> q < 10 ^ k\<close>.
\<close>

fun shortest :: "rat \<Rightarrow> int \<Rightarrow> nat \<Rightarrow> nat \<Rightarrow> nat \<times> nat" where
  "shortest q k n 0 = (nat (rne (q / pow_int 10 (k - int n))), n)"
| "shortest q k n (Suc fuel) =
     (let u = pow_int 10 (k - int n);
          lo = \<lfloor>q / u\<rfloor>; hi = lo + 1;
          oklo = (round_double False (of_int lo * u) = Fin False q);
          okhi = (round_double False (of_int hi * u) = Fin False q)
      in if oklo \<and> okhi then (nat (rne (q / u)), n)
         else if oklo then (nat lo, n)
         else if okhi then (nat hi, n)
         else shortest q k (Suc n) fuel)"

text \<open>The digits without trailing zeros, and the position of the decimal point.\<close>

definition repr_digits :: "rat \<Rightarrow> string \<times> int" where
  "repr_digits q =
     (let k = ilog 10 q + 1;
          (d, n) = shortest q k 1 16;
          ds = str_nat d
      in (rev (dropWhile (\<lambda>c. c = CHR ''0'') (rev ds)), k + int (length ds) - int n))"

text \<open>
  Python prints the digits with an exponent when the decimal point is more than 16
  places to the right of the first digit or more than 3 zeros to its left, and otherwise
  in positional notation with at least one digit after the point.
\<close>

definition format_repr :: "string \<Rightarrow> int \<Rightarrow> string" where
  "format_repr ds decpt =
     (if decpt \<le> - 4 \<or> 16 < decpt then
        hd ds # (if 1 < length ds then CHR ''.'' # tl ds else []) @ ''e''
          @ (if decpt - 1 < 0 then ''-'' else ''+'')
          @ (if \<bar>decpt - 1\<bar> < 10 then ''0'' else []) @ str_nat (nat \<bar>decpt - 1\<bar>)
      else if decpt \<le> 0 then ''0.'' @ replicate (nat (- decpt)) (CHR ''0'') @ ds
      else if int (length ds) \<le> decpt then
        ds @ replicate (nat decpt - length ds) (CHR ''0'') @ ''.0''
      else take (nat decpt) ds @ ''.'' @ drop (nat decpt) ds)"

text \<open>\<^verbatim>\<open>repr(x)\<close>, which is what an f-string writes for a float.\<close>

definition float_repr :: "pyfloat \<Rightarrow> string" where
  "float_repr x =
     (case x of
        NaN \<Rightarrow> ''nan''
      | Infty s \<Rightarrow> (if s then ''-inf'' else ''inf'')
      | Fin s q \<Rightarrow>
          (if s then ''-'' else []) @
          (if q = 0 then ''0.0'' else (let (ds, decpt) = repr_digits q in format_repr ds decpt)))"

section \<open>The Geometry class\<close>

text \<open>
  The attributes of a Geometry object. \<open>sect\<close> is the attribute
  \<^verbatim>\<open>section\<close>; it and \<open>lattice\<close> start as \<^verbatim>\<open>None\<close>.
\<close>

record Geometry =
  sect :: "string option"
  lattice :: "string option"
  coords :: "string list"
  source :: string
  count :: int

text \<open>
  The ways the program stops early: \<^verbatim>\<open>sys.exit(arg)\<close> raises SystemExit
  with its argument (\<^verbatim>\<open>sys.exit()\<close> has the argument \<^verbatim>\<open>None\<close>),
  \<^verbatim>\<open>float\<close> raises ValueError, a division by zero raises
  ZeroDivisionError and \<^verbatim>\<open>open\<close> raises OSError. Nothing in the program
  catches any of them.
\<close>

datatype abort = SystemExit "int option" | ValueError | ZeroDivisionError | OSError

text \<open>
  The unit factor chosen at the start of \<^verbatim>\<open>Geometry.__init__\<close>. The literal
  \<^verbatim>\<open>1.0\<close> is the float one, \<^verbatim>\<open>1.889725989\<close> is the float nearest to
  that decimal, and the integer \<^verbatim>\<open>10\<close> is converted to the float ten when it
  is multiplied with a float.
\<close>

definition unit_fac :: "string \<Rightarrow> abort + pyfloat" where
  "unit_fac units =
     (if units = ''au'' then
        (case fdiv (Fin False 1) (round_double False (1889725989 / 1000000000)) of
           None \<Rightarrow> Inl ZeroDivisionError
         | Some fac \<Rightarrow> Inr fac)
      else if units = ''angstrom'' then Inr (Fin False 1)
      else if units = ''nm'' then Inr (Fin False 10)
      else Inl (SystemExit None))"

text \<open>
  The atom line of a line of six tokens:
  \<^verbatim>\<open>xx = float(tokens[3])*fac\<close>, the same for \<open>yy\<close> and \<open>zz\<close>, then
  \<^verbatim>\<open>f"{tokens[1]} {xx} {yy} {zz}"\<close>.
\<close>

definition atom_line :: "pyfloat \<Rightarrow> string list \<Rightarrow> abort + string" where
  "atom_line fac tokens =
     (case py_float (tokens ! 3) of
        None \<Rightarrow> Inl ValueError
      | Some x \<Rightarrow>
     (case py_float (tokens ! 4) of
        None \<Rightarrow> Inl ValueError
      | Some y \<Rightarrow>
     (case py_float (tokens ! 5) of
        None \<Rightarrow> Inl ValueError
      | Some z \<Rightarrow>
          Inr (tokens ! 1 @ '' '' @ float_repr (fmul x fac) @ '' '' @ float_repr (fmul y fac)
                 @ '' '' @ float_repr (fmul z fac)))))"

text \<open>
  The loop \<^verbatim>\<open>for line in fp\<close> of \<^verbatim>\<open>Geometry.__init__\<close>. A file
  object is the list of the lines not yet read. The result is the atom lines and the
  lines left in the file.
\<close>

fun read_coords :: "pyfloat \<Rightarrow> string list \<Rightarrow> string list \<Rightarrow> abort + (string list \<times> string list)" where
  "read_coords fac cs [] = Inr (cs, [])"
| "read_coords fac cs (line # fp) =
     (let tokens = py_split line; ntokens = length tokens
      in if ntokens = 0 then Inr (cs, fp)
         else if ntokens = 6 then
           (case atom_line fac tokens of
              Inl e \<Rightarrow> Inl e
            | Inr atom \<Rightarrow> read_coords fac (cs @ [atom]) fp)
         else Inl (SystemExit None))"

text \<open>\<^verbatim>\<open>Geometry(source, count, units, fp)\<close>: the object, and the lines left.\<close>

definition Geometry_init :: "string \<Rightarrow> int \<Rightarrow> string \<Rightarrow> string list \<Rightarrow> abort + (Geometry \<times> string list)" where
  "Geometry_init src cnt units fp =
     (case unit_fac units of
        Inl e \<Rightarrow> Inl e
      | Inr fac \<Rightarrow>
          (case read_coords fac [] fp of
             Inl e \<Rightarrow> Inl e
           | Inr (cs, fp') \<Rightarrow>
               Inr (\<lparr>sect = None, lattice = None, coords = cs, source = src, count = cnt\<rparr>, fp')))"

definition set_section :: "Geometry \<Rightarrow> string \<Rightarrow> Geometry" where
  "set_section g s = g\<lparr>sect := Some s\<rparr>"


definition get_source :: "Geometry \<Rightarrow> string" where
  "get_source g = source g"

definition get_count :: "Geometry \<Rightarrow> int" where
  "get_count g = count g"

abbreviation nl :: string where
  "nl \<equiv> [CHR 0x0A]"

text \<open>
  \<^verbatim>\<open>Geometry.write(fp)\<close>: the text written to the file.
  \<^verbatim>\<open>if self.lattice\<close> holds for a lattice that is neither \<^verbatim>\<open>None\<close> nor
  the empty string.
\<close>

definition Geometry_write :: "Geometry \<Rightarrow> string" where
  "Geometry_write g =
     (let natoms = length (coords g);
          comment = (case lattice g of
                       None \<Rightarrow> []
                     | Some l \<Rightarrow> if l = [] then []
                                 else ''Lattice='' @ l @ '' Properties=species:S:1:pos:R:3'')
      in str_nat natoms @ nl @ comment @ nl @ concat (map (\<lambda>atom. atom @ nl) (coords g)))"

section \<open>The extractor\<close>

text \<open>\<^verbatim>\<open>skip_lines\<close>: \<^verbatim>\<open>readline\<close> at the end of the file reads nothing.\<close>

fun skip_lines :: "string list \<Rightarrow> nat \<Rightarrow> string list" where
  "skip_lines fp 0 = fp"
| "skip_lines fp (Suc num) = skip_lines (case fp of [] \<Rightarrow> [] | line # rest \<Rightarrow> rest) num"

lemma length_skip_lines: "length (skip_lines fp num) \<le> length fp"
proof (induction num arbitrary: fp)
  case 0
  show ?case by simp
next
  case (Suc num)
  have "length (skip_lines (case fp of [] \<Rightarrow> [] | line # rest \<Rightarrow> rest) num)
          \<le> length (case fp of [] \<Rightarrow> [] | line # rest \<Rightarrow> rest)"
    by (rule Suc.IH)
  also have "\<dots> \<le> length fp" by (cases fp) simp_all
  finally show ?case by simp
qed

lemma length_read_coords: "read_coords fac cs fp = Inr (cs', fp') \<Longrightarrow> length fp' \<le> length fp"
proof (induction fp arbitrary: cs)
  case Nil
  then show ?case by simp
next
  case (Cons line fp)
  then show ?case
    by (fastforce simp: Let_def split: if_splits sum.splits)
qed

lemma length_Geometry_init:
  "Geometry_init src cnt units fp = Inr (g, fp') \<Longrightarrow> length fp' \<le> length fp"
  by (auto simp: Geometry_init_def split: sum.splits dest: length_read_coords)

text \<open>
  The loop \<^verbatim>\<open>for line in fp\<close> of \<^verbatim>\<open>append_geometries\<close>, from the
  counter \<open>cnt\<close> and the list \<open>geom_in\<close> reached so far.
\<close>

function scan_lines :: "Geometry list \<Rightarrow> string \<Rightarrow> int \<Rightarrow> string list \<Rightarrow> abort + Geometry list" where
  "scan_lines geom_in filename cnt [] = Inr geom_in"
| "scan_lines geom_in filename cnt (line # fp) =
     (if startswith (py_strip line) ''Output coordinates in angstroms'' then
        (case Geometry_init filename (cnt + 1) ''angstrom'' (skip_lines fp 3) of
           Inl e \<Rightarrow> Inl e
         | Inr (g, fp') \<Rightarrow> scan_lines (geom_in @ [g]) filename (cnt + 1) fp')
      else if startswith (py_strip line) ''Output coordinates in a.u.'' then
        (case Geometry_init filename (cnt + 1) ''au'' (skip_lines fp 3) of
           Inl e \<Rightarrow> Inl e
         | Inr (g, fp') \<Rightarrow> scan_lines (geom_in @ [g]) filename (cnt + 1) fp')
      else scan_lines geom_in filename cnt fp)"
  by pat_completeness auto
termination
proof (relation "measure (\<lambda>(geom_in, filename, cnt, fp). length fp)")
  show "wf (measure (\<lambda>(geom_in, filename, cnt, fp). length fp))" by simp
next
  fix geom_in :: "Geometry list" and filename :: string and cnt :: int and line :: string
    and fp :: "string list" and x2 g fp'
  assume "Geometry_init filename (cnt + 1) ''angstrom'' (skip_lines fp 3) = Inr x2"
    and "(g, fp') = x2"
  then have "length fp' \<le> length (skip_lines fp 3)"
    using length_Geometry_init by metis
  also have "\<dots> \<le> length fp" by (rule length_skip_lines)
  finally show "((geom_in @ [g], filename, cnt + 1, fp'), (geom_in, filename, cnt, line # fp))
          \<in> measure (\<lambda>(geom_in, filename, cnt, fp). length fp)"
    by simp
next
  fix geom_in :: "Geometry list" and filename :: string and cnt :: int and line :: string
    and fp :: "string list" and x2 g fp'
  assume "Geometry_init filename (cnt + 1) ''au'' (skip_lines fp 3) = Inr x2"
    and "(g, fp') = x2"
  then have "length fp' \<le> length (skip_lines fp 3)"
    using length_Geometry_init by metis
  also have "\<dots> \<le> length fp" by (rule length_skip_lines)
  finally show "((geom_in @ [g], filename, cnt + 1, fp'), (geom_in, filename, cnt, line # fp))
          \<in> measure (\<lambda>(geom_in, filename, cnt, fp). length fp)"
    by simp
next
  fix geom_in :: "Geometry list" and filename :: string and cnt :: int and line :: string
    and fp :: "string list"
  show "((geom_in, filename, cnt, fp), (geom_in, filename, cnt, line # fp))
          \<in> measure (\<lambda>(geom_in, filename, cnt, fp). length fp)"
    by simp
qed

text \<open>A line at which \<^verbatim>\<open>append_geometries\<close> starts a geometry: either test of its loop holds.\<close>

definition is_marker :: "string \<Rightarrow> bool" where
  "is_marker line =
     (startswith (py_strip line) ''Output coordinates in angstroms''
      \<or> startswith (py_strip line) ''Output coordinates in a.u.'')"

text \<open>\<^verbatim>\<open>append_geometries(geom_in, filename, fp)\<close>: the counter starts at 0.\<close>

definition append_geometries :: "Geometry list \<Rightarrow> string \<Rightarrow> string list \<Rightarrow> abort + Geometry list" where
  "append_geometries geom_in filename fp = scan_lines geom_in filename 0 fp"

text \<open>
  The input files: a name has the lines of its file, or no file can be opened under it.
  The loop \<^verbatim>\<open>for file in files\<close> of \<^verbatim>\<open>run_extractor\<close>.
\<close>

fun read_files :: "(string \<rightharpoonup> string list) \<Rightarrow> Geometry list \<Rightarrow> string list \<Rightarrow> abort + Geometry list" where
  "read_files fs geometries [] = Inr geometries"
| "read_files fs geometries (file # files) =
     (case fs file of
        None \<Rightarrow> Inl OSError
      | Some fp \<Rightarrow>
          (case append_geometries geometries file fp of
             Inl e \<Rightarrow> Inl e
           | Inr geometries' \<Rightarrow> read_files fs geometries' files))"

definition run_extractor :: "(string \<rightharpoonup> string list) \<Rightarrow> string list \<Rightarrow> abort + Geometry list" where
  "run_extractor fs files = read_files fs [] files"

section \<open>The output files\<close>

text \<open>
  The files written: a name has the text of its file. \<^verbatim>\<open>open(filename,"w")\<close>
  followed by writes leaves exactly the text written; \<^verbatim>\<open>open(filename,"a")\<close>
  adds it to the end of what the file had, and makes the file when there was none.
\<close>

type_synonym files = "string \<rightharpoonup> string"

definition open_w :: "files \<Rightarrow> string \<Rightarrow> string \<Rightarrow> files" where
  "open_w fs filename txt = fs(filename \<mapsto> txt)"

definition open_a :: "files \<Rightarrow> string \<Rightarrow> string \<Rightarrow> files" where
  "open_a fs filename txt =
     fs(filename \<mapsto> (case fs filename of None \<Rightarrow> txt | Some old \<Rightarrow> old @ txt))"

text \<open>
  \<^verbatim>\<open>f"{number:04d}"\<close>: the decimal digits, zeros added on the left up to four
  characters, after the sign of a negative number.
\<close>

definition format_04d :: "int \<Rightarrow> string" where
  "format_04d number =
     (if number < 0
      then CHR ''-'' # replicate (3 - length (str_nat (nat (- number)))) (CHR ''0'')
             @ str_nat (nat (- number))
      else replicate (4 - length (str_nat (nat number))) (CHR ''0'') @ str_nat (nat number))"

fun write_separate :: "string \<Rightarrow> Geometry list \<Rightarrow> files \<Rightarrow> files" where
  "write_separate prefix [] fs = fs"
| "write_separate prefix (geometry # geometries) fs =
     (let src = get_source geometry;
          number = get_count geometry;
          basename = get_basename src;
          filename = prefix @ basename @ ''_'' @ format_04d number @ ''.xyz''
      in write_separate prefix geometries (open_w fs filename (Geometry_write geometry)))"

text \<open>
  The loop of \<^verbatim>\<open>write_together\<close>, from the value of \<^verbatim>\<open>oldfilename\<close>
  reached so far.
\<close>

fun together_loop :: "string \<Rightarrow> string \<Rightarrow> Geometry list \<Rightarrow> files \<Rightarrow> files" where
  "together_loop prefix oldfilename [] fs = fs"
| "together_loop prefix oldfilename (geometry # geometries) fs =
     (let src = get_source geometry;
          basename = get_basename src;
          filename = prefix @ basename @ ''.xyz''
      in if oldfilename = filename
         then together_loop prefix oldfilename geometries
                (open_a fs filename (Geometry_write geometry))
         else together_loop prefix filename geometries
                (open_w fs filename (Geometry_write geometry)))"

definition write_together :: "string \<Rightarrow> Geometry list \<Rightarrow> files \<Rightarrow> files" where
  "write_together prefix geometries fs = together_loop prefix [] geometries fs"

text \<open>The file name that \<^verbatim>\<open>write_together\<close> computes for a geometry.\<close>

definition together_filename :: "string \<Rightarrow> Geometry \<Rightarrow> string" where
  "together_filename prefix geometry = prefix @ get_basename (get_source geometry) @ ''.xyz''"

definition write_all_together :: "string \<Rightarrow> Geometry list \<Rightarrow> files \<Rightarrow> files" where
  "write_all_together prefix geometries fs =
     (let filename = prefix @ ''.xyz''
      in open_w fs filename (concat (map Geometry_write geometries)))"

section \<open>The program\<close>

text \<open>
  The parsed command line. \<^verbatim>\<open>--together\<close> has the default \<^verbatim>\<open>True\<close> and the
  action \<^verbatim>\<open>store_true\<close>, so \<^verbatim>\<open>parse_args\<close> always returns it as
  \<^verbatim>\<open>True\<close>.
\<close>

record args =
  nwofilenames :: "string list"
  prefix_arg :: string
  separate :: bool
  together :: bool
  alltogether :: bool

text \<open>
  The main block: the outcome of the run and the files written. What the program
  prints is left out.
\<close>

definition main :: "(string \<rightharpoonup> string list) \<Rightarrow> files \<Rightarrow> args \<Rightarrow> (abort + unit) \<times> files" where
  "main inputs fs a =
     (case run_extractor inputs (nwofilenames a) of
        Inl e \<Rightarrow> (Inl e, fs)
      | Inr geometries \<Rightarrow>
          (let prefix = prefix_arg a;
               fs1 = (if separate a then write_separate prefix geometries fs else fs);
               fs2 = (if together a then write_together prefix geometries fs1 else fs1);
               fs3 = (if alltogether a then write_all_together prefix geometries fs2 else fs2)
           in (Inr (), fs3)))"

text \<open>
  The exit status of the interpreter: 0 when the script ends, 0 for
  \<^verbatim>\<open>sys.exit()\<close> with no argument, the argument of \<^verbatim>\<open>sys.exit(n)\<close>,
  and 1 for an exception that nothing catches.
\<close>

definition exit_status :: "abort + unit \<Rightarrow> int" where
  "exit_status r =
     (case r of
        Inr u \<Rightarrow> 0
      | Inl (SystemExit None) \<Rightarrow> 0
      | Inl (SystemExit (Some n)) \<Rightarrow> n
      | Inl ValueError \<Rightarrow> 1
      | Inl ZeroDivisionError \<Rightarrow> 1
      | Inl OSError \<Rightarrow> 1)"

section \<open>Properties of the string primitives\<close>

lemma split_sep_ne: "split_sep sep cur s \<noteq> []"
  by (induction s arbitrary: cur) auto

lemma hd_split_sep: "hd (split_sep sep cur s) = cur @ takeWhile (\<lambda>c. c \<noteq> sep) s"
  by (induction s arbitrary: cur) auto

lemma takeWhile_absent: "x \<notin> set s \<Longrightarrow> takeWhile (\<lambda>c. c \<noteq> x) s = s"
  by (induction s) auto

lemma last_split_sep:
  "last (split_sep sep cur s) =
     (if sep \<in> set s then rev (takeWhile (\<lambda>c. c \<noteq> sep) (rev s)) else cur @ s)"
proof (induction s arbitrary: cur)
  case Nil
  then show ?case by simp
next
  case (Cons c cs)
  show ?case
  proof (cases "c = sep")
    case True
    show ?thesis
    proof (cases "sep \<in> set cs")
      case True
      with \<open>c = sep\<close> Cons.IH [of "[]"] show ?thesis
        by (simp add: split_sep_ne takeWhile_append1)
    next
      case False
      then have "takeWhile (\<lambda>c. c \<noteq> sep) (rev cs @ [sep]) = rev cs"
        by (subst takeWhile_append2) auto
      with False \<open>c = sep\<close> Cons.IH [of "[]"] show ?thesis
        by (simp add: split_sep_ne)
    qed
  next
    case False
    show ?thesis
    proof (cases "sep \<in> set cs")
      case True
      with False Cons.IH [of "cur @ [c]"] show ?thesis
        by (simp add: takeWhile_append1)
    next
      case False
      with \<open>c \<noteq> sep\<close> Cons.IH [of "cur @ [c]"] show ?thesis by simp
    qed
  qed
qed

lemma last_split_on:
  "last (split_on sep s) = rev (takeWhile (\<lambda>c. c \<noteq> sep) (rev s))"
  by (simp add: split_on_def last_split_sep takeWhile_absent)

lemma hd_split_on: "hd (split_on sep s) = takeWhile (\<lambda>c. c \<noteq> sep) s"
  by (simp add: split_on_def hd_split_sep)

lemma get_basename_eq:
  "get_basename q =
     takeWhile (\<lambda>c. c \<noteq> CHR ''.'') (rev (takeWhile (\<lambda>c. c \<noteq> CHR ''/'') (rev q)))"
  by (simp add: get_basename_def Let_def last_split_on hd_split_on)

text \<open>
  C8. For every path, \<open>get_basename\<close> is the part of the path after its last
  \<open>/\<close> (the whole path when it has none), cut before its first \<open>.\<close>; on the two
  paths of the specification it gives \<open>structure\<close> and \<open>name\<close>.
\<close>

theorem get_basename_first_dot:
  "get_basename p =
     takeWhile (\<lambda>c. c \<noteq> CHR ''.'') (rev (takeWhile (\<lambda>c. c \<noteq> CHR ''/'') (rev p)))
   \<and> get_basename ''/a/b/structure.out'' = ''structure''
   \<and> get_basename ''name.part.xyz'' = ''name''"
  by (simp add: get_basename_eq)

section \<open>Evaluating floats\<close>

text \<open>Floors and ceilings of quotients of numerals, for the simplifier.\<close>

lemma floor_rat_numeral: "\<lfloor>numeral a / numeral b :: rat\<rfloor> = numeral a div numeral b"
  by (metis floor_divide_of_int_eq of_int_numeral)

lemma floor_rat_one_numeral: "\<lfloor>1 / numeral b :: rat\<rfloor> = 1 div numeral b"
  by (metis floor_divide_of_int_eq of_int_numeral of_int_1)

lemma ceiling_rat_numeral: "\<lceil>numeral a / numeral b :: rat\<rceil> = - (- numeral a div numeral b)"
  unfolding ceiling_def
  by (metis divide_minus_left floor_divide_of_int_eq of_int_neg_numeral of_int_numeral)

lemma ceiling_rat_one_numeral: "\<lceil>1 / numeral b :: rat\<rceil> = - (- 1 div numeral b)"
  unfolding ceiling_def
  by (metis divide_minus_left floor_divide_of_int_eq of_int_minus of_int_1 of_int_numeral)

lemmas float_eval = round_double_def ilog_def ndigits.simps rne_def pow_int_def Let_def
  floor_rat_numeral floor_rat_one_numeral ceiling_rat_numeral ceiling_rat_one_numeral

lemma parse_number_123:
  "parse_number ''1.0'' = Some 1" "parse_number ''2.0'' = Some 2" "parse_number ''3.0'' = Some 3"
  by (simp_all add: parse_number_def parse_exponent_def is_digit_def digits_val_def pow_int_def)

lemma round_double_small:
  "round_double False 1 = Fin False 1" "round_double False 2 = Fin False 2"
  "round_double False 3 = Fin False 3" "round_double False 4 = Fin False 4"
  by (simp_all add: float_eval)

lemma py_float_123:
  "py_float ''1.0'' = Some (Fin False 1)" "py_float ''2.0'' = Some (Fin False 2)"
  "py_float ''3.0'' = Some (Fin False 3)"
  by (simp_all add: py_float_def py_strip_def is_space_def py_float_unsigned_def parse_number_123
      round_double_small is_digit_def)

lemma ilog10_123: "ilog 10 1 = 0" "ilog 10 2 = 0" "ilog 10 3 = 0"
  by (simp_all add: float_eval)

lemma round_double_tens:
  "round_double False 10 \<noteq> Fin False 1" "round_double False 20 \<noteq> Fin False 2"
  "round_double False 30 \<noteq> Fin False 3" "round_double False 40 \<noteq> Fin False 3"
  by (simp_all add: float_eval)

lemma shortest_123:
  "shortest 1 1 (Suc 0) 16 = (1, Suc 0)" "shortest 2 1 (Suc 0) 16 = (2, Suc 0)"
  "shortest 3 1 (Suc 0) 16 = (3, Suc 0)"
  by (simp_all add: numeral_eq_Suc pow_int_def round_double_small Let_def)

lemma float_repr_123:
  "float_repr (Fin False 1) = ''1.0''" "float_repr (Fin False 2) = ''2.0''"
  "float_repr (Fin False 3) = ''3.0''"
  by (simp_all add: float_repr_def repr_digits_def ilog10_123 shortest_123 format_repr_def
      str_nat.simps digit_char_def)

lemma atom_line_Li:
  "atom_line (Fin False 1) [''1'', ''Li'', ''0'', ''1.0'', ''2.0'', ''3.0''] = Inr ''Li 1.0 2.0 3.0''"
  by (simp add: atom_line_def py_float_123 round_double_small float_repr_123)

lemma py_split_Li: "py_split (''1  Li  0  1.0 2.0 3.0'' @ nl) = [''1'', ''Li'', ''0'', ''1.0'', ''2.0'', ''3.0'']"
  by (simp add: py_split_def is_space_def)

section \<open>Scanning a file\<close>

lemma unit_fac_angstrom: "unit_fac ''angstrom'' = Inr (Fin False 1)"
  by (simp add: unit_fac_def)

lemma skip_lines_drop: "skip_lines fp num = drop num fp"
proof (induction num arbitrary: fp)
  case 0
  show ?case by simp
next
  case (Suc num)
  show ?case by (cases fp) (simp_all add: Suc.IH)
qed

lemma scan_lines_plain:
  "\<not> is_marker line \<Longrightarrow> scan_lines g f c (line # fp) = scan_lines g f c fp"
  by (simp add: is_marker_def)

lemma scan_lines_no_marker:
  "list_all (\<lambda>l. \<not> is_marker l) pre \<Longrightarrow> scan_lines g f c (pre @ fp) = scan_lines g f c fp"
  by (induction pre) (simp_all add: is_marker_def)

lemma Geometry_init_Li:
  assumes a: "py_split a = [''1'', ''Li'', ''0'', ''1.0'', ''2.0'', ''3.0'']"
    and b: "py_split b = []"
  shows "Geometry_init f c ''angstrom'' (a # b # post)
           = Inr (\<lparr>sect = None, lattice = None, coords = [''Li 1.0 2.0 3.0''],
                    source = f, count = c\<rparr>, post)"
proof -
  have rc: "read_coords (Fin False 1) [] (a # b # post) = Inr ([''Li 1.0 2.0 3.0''], post)"
    by (simp add: a b atom_line_Li Let_def)
  show ?thesis
    by (simp add: Geometry_init_def unit_fac_angstrom rc del: read_coords.simps)
qed

text \<open>
  C1. A file whose only geometry block is a line that starts, once stripped, with the
  angstrom marker, three more lines of any content, a line with the tokens of
  \<^verbatim>\<open>1  Li  0  1.0 2.0 3.0\<close> and a blank line gives exactly one Geometry: its
  \<open>coords\<close> are \<open>[''Li 1.0 2.0 3.0'']\<close> and its \<open>count\<close> is 1. The three lines
  after the marker are skipped whatever they hold, and the constructor reads the blank
  line: the lines it leaves are those after it.
\<close>

theorem one_angstrom_block:
  assumes m: "startswith (py_strip m) ''Output coordinates in angstroms''"
    and a: "py_split a = [''1'', ''Li'', ''0'', ''1.0'', ''2.0'', ''3.0'']"
    and b: "py_split b = []"
    and pre: "list_all (\<lambda>l. \<not> is_marker l) pre"
    and post: "list_all (\<lambda>l. \<not> is_marker l) post"
  shows "Geometry_init f 1 ''angstrom'' (a # b # post)
           = Inr (\<lparr>sect = None, lattice = None, coords = [''Li 1.0 2.0 3.0''],
                    source = f, count = 1\<rparr>, post)
         \<and> append_geometries [] f (pre @ [m, h1, h2, h3, a, b] @ post)
           = Inr [\<lparr>sect = None, lattice = None, coords = [''Li 1.0 2.0 3.0''],
                    source = f, count = 1\<rparr>]"
proof -
  let ?g = "\<lparr>sect = None, lattice = None, coords = [''Li 1.0 2.0 3.0''], source = f, count = 1\<rparr>"
  have gi: "Geometry_init f 1 ''angstrom'' (a # b # post) = Inr (?g, post)"
    by (rule Geometry_init_Li [OF a b])
  have "scan_lines [] f 0 (m # h1 # h2 # h3 # a # b # post) = scan_lines [?g] f 1 post"
    using m gi by (simp add: skip_lines_drop)
  also have "\<dots> = Inr [?g]"
    using scan_lines_no_marker [OF post, of "[?g]" f 1 "[]"] by simp
  finally have "scan_lines [] f 0 (pre @ m # h1 # h2 # h3 # a # b # post) = Inr [?g]"
    by (simp add: scan_lines_no_marker [OF pre])
  then have "append_geometries [] f (pre @ [m, h1, h2, h3, a, b] @ post) = Inr [?g]"
    by (simp add: append_geometries_def)
  with gi show ?thesis by simp
qed

theorem one_angstrom_block_witness:
  "append_geometries [] ''h2o.out''
     [''  Output coordinates in angstroms (scale by  1.889725989 to convert to a.u.)'' @ nl,
      nl, ''  No.       Tag          Charge          X              Y              Z'' @ nl,
      '' ---- ---------------- ---------- -------------- -------------- --------------'' @ nl,
      ''1  Li  0  1.0 2.0 3.0'' @ nl, nl]
   = Inr [\<lparr>sect = None, lattice = None, coords = [''Li 1.0 2.0 3.0''],
            source = ''h2o.out'', count = 1\<rparr>]"
proof -
  have m: "startswith (py_strip (''  Output coordinates in angstroms (scale by  1.889725989 to convert to a.u.)'' @ nl))
             ''Output coordinates in angstroms''"
    by (simp add: py_strip_def is_space_def startswith_def)
  have b: "py_split nl = []"
    by (simp add: py_split_def is_space_def)
  show ?thesis
    using one_angstrom_block [OF m py_split_Li b, of "[]" "[]" "''h2o.out''"]
    by simp
qed

section \<open>Block parsing\<close>










section \<open>Writing\<close>






lemma together_filename_ne: "together_filename prefix g \<noteq> []"
  by (simp add: together_filename_def)

lemma together_loop_Cons:
  "together_loop prefix old (g # gs) fs =
     (if old = together_filename prefix g
      then together_loop prefix old gs (open_a fs (together_filename prefix g) (Geometry_write g))
      else together_loop prefix (together_filename prefix g) gs
             (open_w fs (together_filename prefix g) (Geometry_write g)))"
  by (simp add: together_filename_def Let_def)




lemma write_together_AA:
  assumes "together_filename prefix a' = together_filename prefix a"
  shows "write_together prefix [a, a'] fs (together_filename prefix a)
           = Some (Geometry_write a @ Geometry_write a')"
  using assms together_filename_ne [of prefix a]
  by (auto simp: write_together_def together_loop_Cons open_w_def open_a_def
           simp del: together_loop.simps(2))




end
